theory Spec2Isabelle
  imports Complex_Main "HOL-Library.AList"
begin

section \<open>Python values used by the release engine\<close>

text \<open>
  Exceptions are values. \<open>DBAPIError\<close> stands for a failure of the persistence engine,
  \<open>OtherError\<close> for any exception the code does not name.
\<close>

datatype exn =
    TypeError
  | KeyError
  | AttributeError
  | ValueError string
  | NotImplementedError string
  | DBAPIError
  | OtherError string

text \<open>
  The values the parser puts into the mapping returned by \<open>parse_release_info\<close>:
  integers, strings or \<open>None\<close>.
\<close>

datatype pyval = PInt int | PStr string | PNone

fun digits :: "nat \<Rightarrow> string" where
  "digits n =
     (if n < 10 then [''0123456789'' ! n]
      else digits (n div 10) @ [''0123456789'' ! (n mod 10)])"

text \<open>The text that \<open>"{}".format(v)\<close> puts in place of the braces.\<close>

fun fmt :: "pyval \<Rightarrow> string" where
  "fmt (PInt i) = (if i < 0 then ''-'' @ digits (nat (- i)) else digits (nat i))"
| "fmt (PStr s) = s"
| "fmt PNone = ''None''"

text \<open>
  Strings. The module works on unicode strings (\<open>unicode_literals\<close>); a \<open>char\<close> of the
  model is a code point below 256. \<open>lower\<close> is \<open>unicode.lower()\<close> on that range: the
  letters that change are \<open>A\<close> to \<open>Z\<close> (65 to 90) and the accented capitals 192 to 214 and
  216 to 222, each moved up by 32. A byte string would be lowered on 65 to 90 only, and a
  code point from 256 on has no \<open>char\<close>; the two readings agree on ASCII names, which
  \<open>is_ascii\<close> singles out and the theorems about lowered names assume.
\<close>

definition is_upper :: "char \<Rightarrow> bool" where
  "is_upper c =
     (let n = (of_char c :: nat)
      in (65 \<le> n \<and> n \<le> 90) \<or> (192 \<le> n \<and> n \<le> 214) \<or> (216 \<le> n \<and> n \<le> 222))"

definition lower_char :: "char \<Rightarrow> char" where
  "lower_char c = (if is_upper c then char_of ((of_char c :: nat) + 32) else c)"

definition lower :: "string \<Rightarrow> string" where
  "lower s = map lower_char s"

definition is_ascii :: "string \<Rightarrow> bool" where
  "is_ascii s = list_all (\<lambda>c. (of_char c :: nat) < 128) s"

section \<open>Release keys (datastore.py)\<close>

text \<open>
  The module \<open>tranny.constants\<close> is not part of the sources at hand; the three media
  constants the key classes use are kept as an enumeration.
\<close>

datatype media = MEDIA_UNKNOWN | MEDIA_TV | MEDIA_MOVIE

text \<open>The attributes set by \<open>BaseReleaseKey.__init__\<close>.\<close>

record BaseReleaseKey =
  release_name :: string
  name :: string
  release_key :: string
  media_type :: media

text \<open>
  \<open>self.release_key = release_key or name\<close>: an absent or empty key falls back to the name.
\<close>

definition BaseReleaseKey_init ::
  "string \<Rightarrow> string \<Rightarrow> string option \<Rightarrow> media \<Rightarrow> BaseReleaseKey" where
  "BaseReleaseKey_init rn nm rk mt =
     \<lparr>release_name = rn, name = nm,
      release_key = (case rk of None \<Rightarrow> nm | Some k \<Rightarrow> if k = [] then nm else k),
      media_type = mt\<rparr>"

text \<open>
  The four classes. \<open>TV\<close> carries season, episode, year and the \<open>daily\<close> flag;
  \<open>TVDaily\<close> carries day, month, year and the flag; \<open>Movie\<close> carries the year.
\<close>

datatype ReleaseKey =
    Base BaseReleaseKey
  | TV BaseReleaseKey pyval pyval "pyval option" bool
  | TVDaily BaseReleaseKey pyval pyval pyval bool
  | Movie BaseReleaseKey pyval

fun attrs :: "ReleaseKey \<Rightarrow> BaseReleaseKey" where
  "attrs (Base b) = b"
| "attrs (TV b _ _ _ _) = b"
| "attrs (TVDaily b _ _ _ _) = b"
| "attrs (Movie b _) = b"

text \<open>\<open>__unicode__\<close>: the string form of a key object is its \<open>release_key\<close>.\<close>

definition as_unicode :: "ReleaseKey \<Rightarrow> string" where
  "as_unicode k = release_key (attrs k)"

definition TVReleaseKey :: "string \<Rightarrow> string \<Rightarrow> pyval \<Rightarrow> pyval \<Rightarrow> ReleaseKey" where
  "TVReleaseKey rn nm season episode =
     TV (BaseReleaseKey_init rn nm (Some (nm @ ''-'' @ fmt season @ ''_'' @ fmt episode)) MEDIA_TV)
        season episode None False"

definition TVDailyReleaseKey ::
  "string \<Rightarrow> string \<Rightarrow> pyval \<Rightarrow> pyval \<Rightarrow> pyval \<Rightarrow> ReleaseKey" where
  "TVDailyReleaseKey rn nm day month year =
     TVDaily
       (BaseReleaseKey_init rn nm
          (Some (nm @ ''-'' @ fmt year @ ''_'' @ fmt month @ ''_'' @ fmt day)) MEDIA_TV)
       day month year True"

definition MovieReleaseKey :: "string \<Rightarrow> string \<Rightarrow> pyval \<Rightarrow> ReleaseKey" where
  "MovieReleaseKey rn nm year =
     Movie (BaseReleaseKey_init rn nm (Some (nm @ ''-'' @ fmt year)) MEDIA_MOVIE) year"

subsection \<open>The parser collaborator\<close>

text \<open>
  The module \<open>tranny.parser\<close> is not part of the sources at hand, so the three functions
  \<open>generate_release_key\<close> calls are parameters. \<open>parse_release\<close> gives a name or a falsy
  value (\<open>None\<close> here, or the empty string); \<open>parse_release_info\<close> raises, or gives a
  falsy value, or a dictionary from field names to values, kept as an association list.
\<close>

type_synonym info = "(string \<times> pyval) list"

record parser =
  normalize_name :: "string \<Rightarrow> string"
  parse_release :: "string \<Rightarrow> string option"
  parse_release_info :: "string \<Rightarrow> exn + info option"

text \<open>
  \<open>generate_release_key\<close>. The result \<open>None\<close> is the \<open>False\<close> the function returns when
  no name was parsed. The \<open>finally: return release_info\<close> of the source discards every
  exception in flight, the \<open>TypeError\<close> it names as well as any other, also a \<open>KeyError\<close>
  of \<open>info[...]\<close>; each of them leaves the base key built before the \<open>try\<close>.
\<close>

definition generate_release_key :: "parser \<Rightarrow> string \<Rightarrow> ReleaseKey option" where
  "generate_release_key P raw =
     (let release_name = normalize_name P raw in
      case parse_release P release_name of
        None \<Rightarrow> None
      | Some parsed \<Rightarrow>
          if parsed = [] then None
          else
            let name = lower parsed;
                release_info = Base (BaseReleaseKey_init release_name name None MEDIA_UNKNOWN)
            in Some
              (case parse_release_info P release_name of
                 Inl e \<Rightarrow> release_info
               | Inr None \<Rightarrow> release_info
               | Inr (Some info) \<Rightarrow>
                   if info = [] then release_info
                   else
                     let key_set = set (map fst info) in
                     if key_set = {''season'', ''episode''} then
                       (case (map_of info ''season'', map_of info ''episode'') of
                          (Some s, Some e) \<Rightarrow> TVReleaseKey release_name name s e
                        | _ \<Rightarrow> release_info)
                     else if key_set = {''year'', ''day'', ''month''} then
                       (case (map_of info ''day'', map_of info ''month'', map_of info ''year'') of
                          (Some d, Some m, Some y) \<Rightarrow> TVDailyReleaseKey release_name name d m y
                        | _ \<Rightarrow> release_info)
                     else if key_set = {''year''} then
                       (case map_of info ''year'' of
                          Some y \<Rightarrow> MovieReleaseKey release_name name y
                        | None \<Rightarrow> release_info)
                     else release_info))"

text \<open>
  The field-set a parse yields: the names in the dictionary; nothing when the parser
  raised or gave a falsy value. \<open>extracted\<close> is the same with the values.
\<close>

fun field_set :: "exn + info option \<Rightarrow> string set" where
  "field_set (Inr (Some info)) = set (map fst info)"
| "field_set _ = {}"

fun extracted :: "exn + info option \<Rightarrow> (string \<rightharpoonup> pyval)" where
  "extracted (Inr (Some info)) = map_of info"
| "extracted _ = Map.empty"

text \<open>
  The key as a function of the two answers of the parser alone: the parsed name and the
  extracted fields with their values.
\<close>

definition key_from_parse :: "string option \<Rightarrow> (string \<rightharpoonup> pyval) \<Rightarrow> string option" where
  "key_from_parse nm m =
     (case nm of
        None \<Rightarrow> None
      | Some parsed \<Rightarrow>
          if parsed = [] then None
          else Some
            (if dom m = {''season'', ''episode''} then
               (case (m ''season'', m ''episode'') of
                  (Some s, Some e) \<Rightarrow> lower parsed @ ''-'' @ fmt s @ ''_'' @ fmt e
                | _ \<Rightarrow> lower parsed)
             else if dom m = {''year'', ''day'', ''month''} then
               (case (m ''day'', m ''month'', m ''year'') of
                  (Some d, Some mo, Some y) \<Rightarrow>
                    lower parsed @ ''-'' @ fmt y @ ''_'' @ fmt mo @ ''_'' @ fmt d
                | _ \<Rightarrow> lower parsed)
             else if dom m = {''year''} then
               (case m ''year'' of Some y \<Rightarrow> lower parsed @ ''-'' @ fmt y | None \<Rightarrow> lower parsed)
             else lower parsed))"

text \<open>A parser stub that gives the same answers for every release name.\<close>

definition const_parser :: "string option \<Rightarrow> (exn + info option) \<Rightarrow> parser" where
  "const_parser nm res =
     \<lparr>normalize_name = (\<lambda>s. s), parse_release = (\<lambda>_. nm), parse_release_info = (\<lambda>_. res)\<rparr>"

text \<open>
  A parser stub given by a table from normalized release names to the two answers, and the
  table used in the examples.
\<close>

definition table_parser :: "(string \<times> string option \<times> (exn + info option)) list \<Rightarrow> parser" where
  "table_parser tab =
     \<lparr>normalize_name = (\<lambda>s. s),
      parse_release = (\<lambda>s. case map_of tab s of Some (nm, r) \<Rightarrow> nm | None \<Rightarrow> None),
      parse_release_info = (\<lambda>s. case map_of tab s of Some (nm, r) \<Rightarrow> r | None \<Rightarrow> Inl TypeError)\<rparr>"

definition demo_parser :: parser where
  "demo_parser = table_parser
     [(''Show.S01E02.720p.HDTV.x264-AAA'',
         Some ''Show'', Inr (Some [(''season'', PInt 1), (''episode'', PInt 2)])),
      (''show.s01e02.proper.web-dl-bbb'',
         Some ''show'', Inr (Some [(''episode'', PInt 2), (''season'', PInt 1)])),
      (''SHOW.S01E03.HDTV-CCC'',
         Some ''SHOW'', Inr (Some [(''season'', PInt 1), (''episode'', PInt 3)])),
      (''Show.S01E02.PROPER.WEB-DL-DDD'',
         Some ''Show'', Inr (Some [(''episode'', PInt 2), (''season'', PInt 1)]))]"

section \<open>The persistence collaborator\<close>

text \<open>
  Python's \<open>False\<close>, \<open>None\<close> or an object, for a variable that holds one of the three.
\<close>

datatype 'a pyref = IsFalse | IsNone | Obj 'a

fun truthy :: "'a pyref \<Rightarrow> bool" where
  "truthy (Obj _) = True"
| "truthy _ = False"

text \<open>
  Modelled from the spec: the entities \<open>Download{release_key, download_id, created_on}\<close> and
  \<open>Source{source_name, source_id}\<close> of \<open>tranny.models\<close>, which is not part of the sources at
  hand. The column \<open>release_key\<close> of a download is \<open>download_release_key\<close> here, the name
  \<open>release_key\<close> being the attribute of the key classes. A source is an object: \<open>oid\<close> is its
  identity, and \<open>source_id\<close> is \<open>None\<close> until the row is written.
\<close>

record Download =
  download_release_key :: string
  download_id :: int
  created_on :: int

record Source =
  oid :: nat
  source_name :: string
  source_id :: "int option"

text \<open>
  Modelled from the spec: the session of the persistence collaborator with its query
  capability (filter by field, first and all, ordered and limited retrieval) and its
  staged insert. \<open>downloads\<close> and \<open>sources\<close> are the rows a query sees, \<open>pending\<close> the
  objects staged by \<open>add\<close> and not yet written, \<open>fault\<close> a failure of the engine that every
  executed query raises. With \<open>autoflush\<close> a query first writes the staged objects, which
  gives each its \<open>source_id\<close>.
\<close>

record session =
  downloads :: "Download list"
  sources :: "Source list"
  pending :: "Source list"
  autoflush :: bool
  next_source_id :: int
  fault :: "exn option"

fun assign_ids :: "int \<Rightarrow> Source list \<Rightarrow> Source list" where
  "assign_ids n [] = []"
| "assign_ids n (x # xs) = x\<lparr>source_id := Some n\<rparr> # assign_ids (n + 1) xs"

definition flush :: "session \<Rightarrow> session" where
  "flush s =
     s\<lparr>sources := sources s @ assign_ids (next_source_id s) (pending s),
       pending := [],
       next_source_id := next_source_id s + int (length (pending s))\<rparr>"

text \<open>\<open>session.add(obj)\<close>.\<close>

definition session_add :: "session \<Rightarrow> Source \<Rightarrow> session" where
  "session_add s x = s\<lparr>pending := pending s @ [x]\<rparr>"

text \<open>
  A query object: the session it came from and the rows it selects. \<open>first\<close> and \<open>all\<close>
  execute it.
\<close>

datatype 'r Query = Query session "'r list"

definition query_Download :: "session \<Rightarrow> Download Query" where
  "query_Download s = Query s (downloads s)"

text \<open>
  The session after a query on the sources was executed: with \<open>autoflush\<close>, and the engine
  working, the staged objects are written. A query on the sources selects from the rows of
  that session.
\<close>

definition after_query :: "session \<Rightarrow> session" where
  "after_query s = (if autoflush s \<and> fault s = None then flush s else s)"

definition query_Source :: "session \<Rightarrow> Source Query" where
  "query_Source s = Query s (sources (after_query s))"

fun filter_by :: "('r \<Rightarrow> bool) \<Rightarrow> 'r Query \<Rightarrow> 'r Query" where
  "filter_by p (Query s rows) = Query s (filter p rows)"

fun order_by_desc :: "('r \<Rightarrow> int) \<Rightarrow> 'r Query \<Rightarrow> 'r Query" where
  "order_by_desc f (Query s rows) = Query s (rev (sort_key f rows))"

fun limit :: "nat option \<Rightarrow> 'r Query \<Rightarrow> 'r Query" where
  "limit None q = q"
| "limit (Some n) (Query s rows) = Query s (take n rows)"

fun first :: "'r Query \<Rightarrow> exn + 'r option" where
  "first (Query s rows) =
     (case fault s of
        Some e \<Rightarrow> Inl e
      | None \<Rightarrow> Inr (case rows of [] \<Rightarrow> None | r # _ \<Rightarrow> Some r))"

fun all_rows :: "'r Query \<Rightarrow> exn + 'r list" where
  "all_rows (Query s rows) = (case fault s of Some e \<Rightarrow> Inl e | None \<Rightarrow> Inr rows)"

text \<open>
  Modelled from the spec: the query capability (filter by field, first and all, ordered and
  limited retrieval) as the attributes of a query object. A query object has no attribute
  \<open>query\<close>; reading a missing attribute raises \<open>AttributeError\<close>.
\<close>

definition Query_attributes :: "string list" where
  "Query_attributes = [''filter_by'', ''filter'', ''first'', ''all'', ''order_by'', ''limit'']"

definition hasattr_Query :: "string \<Rightarrow> bool" where
  "hasattr_Query a = (a \<in> set Query_attributes)"

section \<open>Lookup of sources and downloads (datastore.py)\<close>

text \<open>
  The truth value of an argument: a name counts when it is a non-empty string, an id when
  it is a number other than zero.
\<close>

fun nonempty :: "string option \<Rightarrow> string option" where
  "nonempty (Some s) = (if s = [] then None else Some s)"
| "nonempty None = None"

fun nonzero :: "int option \<Rightarrow> int option" where
  "nonzero (Some i) = (if i = 0 then None else Some i)"
| "nonzero None = None"

text \<open>
  \<open>cache_source = defaultdict(lambda: False)\<close>: reading a missing key enters it with
  \<open>False\<close>. The memo is kept in the order of entry; \<open>values()\<close> goes through it in that
  order. \<open>next_oid\<close> is the identity the next object created gets.
\<close>

type_synonym cache = "(string \<times> Source pyref) list"

record world =
  cache_source :: cache
  next_oid :: nat

definition cache_getitem :: "cache \<Rightarrow> string \<Rightarrow> Source pyref \<times> cache" where
  "cache_getitem c k =
     (case map_of c k of Some v \<Rightarrow> (v, c) | None \<Rightarrow> (IsFalse, c @ [(k, IsFalse)]))"

definition cache_setitem :: "cache \<Rightarrow> string \<Rightarrow> Source pyref \<Rightarrow> cache" where
  "cache_setitem c k v = AList.update k v c"

fun of_option :: "'a option \<Rightarrow> 'a pyref" where
  "of_option None = IsNone"
| "of_option (Some x) = Obj x"

datatype source_result = One Source | Many "Source list"

text \<open>
  The loop \<open>for source in cache_source.values(): if source.source_id == source_id: break\<close>.
  \<open>Inr (Some x)\<close> is the \<open>break\<close> at \<open>x\<close>, \<open>Inr None\<close> the end of the loop, which runs its
  \<open>else\<close>; a value \<open>False\<close> or \<open>None\<close> in the memo has no attribute \<open>source_id\<close>.
\<close>

fun scan_cache :: "int \<Rightarrow> Source pyref list \<Rightarrow> exn + Source option" where
  "scan_cache i [] = Inr None"
| "scan_cache i (Obj x # vs) = (if source_id x = Some i then Inr (Some x) else scan_cache i vs)"
| "scan_cache i (_ # vs) = Inl AttributeError"

text \<open>
  The end of \<open>get_source\<close>, from \<open>if not source and source_name\<close> on: a source that was
  found is returned; without one, a name makes a new \<open>Source(source_name)\<close> that is staged
  with \<open>session.add\<close>, and no name raises \<open>ValueError\<close>.
\<close>

definition get_source_finish ::
  "world \<Rightarrow> session \<Rightarrow> string option \<Rightarrow> Source pyref \<Rightarrow>
     (exn + source_result) \<times> world \<times> session" where
  "get_source_finish w s name_arg source =
     (case source of
        Obj x \<Rightarrow> (Inr (One x), w, s)
      | _ \<Rightarrow>
          (case nonempty name_arg of
             Some nm \<Rightarrow>
               (let x = \<lparr>oid = next_oid w, source_name = nm, source_id = None\<rparr>
                in (Inr (One x), w\<lparr>next_oid := Suc (next_oid w)\<rparr>, session_add s x))
           | None \<Rightarrow> (Inl (ValueError ''Invalid source name''), w, s)))"

text \<open>
  \<open>get_source(session, source_name, source_id)\<close>, with the memo and the session passed in
  and returned. An exception leaves the memo as the statements before it made it.
\<close>

definition get_source ::
  "world \<Rightarrow> session \<Rightarrow> string option \<Rightarrow> int option \<Rightarrow>
     (exn + source_result) \<times> world \<times> session" where
  "get_source w s name_arg id_arg =
     (case nonempty name_arg of
        Some nm \<Rightarrow>
          (let (source, c1) = cache_getitem (cache_source w) nm;
               w1 = w\<lparr>cache_source := c1\<rparr>
           in if \<not> truthy source then
                (case first (filter_by (\<lambda>x. source_name x = nm) (query_Source s)) of
                   Inl e \<Rightarrow> (Inl e, w1, s)
                 | Inr r \<Rightarrow>
                     get_source_finish
                       (w1\<lparr>cache_source := cache_setitem c1 nm (of_option r)\<rparr>)
                       (after_query s) name_arg (of_option r))
              else get_source_finish w1 s name_arg source)
      | None \<Rightarrow>
          (case nonzero id_arg of
             Some i \<Rightarrow>
               (case scan_cache i (map snd (cache_source w)) of
                  Inl e \<Rightarrow> (Inl e, w, s)
                | Inr (Some x) \<Rightarrow> get_source_finish w s name_arg (Obj x)
                | Inr None \<Rightarrow>
                    (case first (filter_by (\<lambda>x. source_id x = Some i) (query_Source s)) of
                       Inl e \<Rightarrow> (Inl e, w, s)
                     | Inr None \<Rightarrow> (Inl AttributeError, w, after_query s)
                     | Inr (Some x) \<Rightarrow>
                         get_source_finish
                           (w\<lparr>cache_source := cache_setitem (cache_source w) (source_name x) (Obj x)\<rparr>)
                           (after_query s) name_arg (Obj x)))
           | None \<Rightarrow>
               (case all_rows (query_Source s) of
                  Inl e \<Rightarrow> (Inl e, w, s)
                | Inr xs \<Rightarrow> (Inr (Many xs), w, after_query s))))"

datatype download_result = OneDownload "Download option" | ManyDownloads "Download list"

text \<open>
  \<open>fetch_download(session, release_key, download_id, limit)\<close>. The first branch reads the
  attribute \<open>query\<close> of the query object before it filters.
\<close>

definition fetch_download ::
  "session \<Rightarrow> string option \<Rightarrow> int option \<Rightarrow> nat option \<Rightarrow> exn + download_result" where
  "fetch_download s key_arg id_arg limit_arg =
     (case nonempty key_arg of
        Some k \<Rightarrow>
          (if hasattr_Query ''query'' then
             map_sum id OneDownload
               (first (filter_by (\<lambda>d. download_release_key d = k) (query_Download s)))
           else Inl AttributeError)
      | None \<Rightarrow>
          (case nonzero id_arg of
             Some i \<Rightarrow>
               map_sum id OneDownload
                 (first (filter_by (\<lambda>d. download_id d = i) (query_Download s)))
           | None \<Rightarrow>
               map_sum id ManyDownloads
                 (all_rows (limit limit_arg (order_by_desc created_on (query_Download s))))))"

section \<open>The torrent provider (provider/__init__.py)\<close>

text \<open>
  The poll state of a provider. \<open>time()\<close> gives seconds as a floating point number; the
  model takes the time stamps as real numbers.
\<close>

record TorrentProvider =
  enabled :: bool
  last_update :: real
  interval :: int

text \<open>
  \<open>__init__\<close>: a new provider is disabled and was never updated; its interval is the one
  configured for its section, 60 when there is none.
\<close>

definition TorrentProvider_init :: "int option \<Rightarrow> TorrentProvider" where
  "TorrentProvider_init configured =
     \<lparr>enabled = False, last_update = 0,
      interval = (case configured of None \<Rightarrow> 60 | Some i \<Rightarrow> i)\<rparr>"

text \<open>
  \<open>find_matches\<close> is a generator. \<open>Created\<close> is the generator before its first \<open>next\<close>,
  \<open>Suspended\<close> the generator stopped at the \<open>yield\<close> inside the loop, with the session and
  the releases still to come, \<open>Closed\<close> the generator that has ended. A \<open>next\<close> gives a
  pair, ends the iteration, or raises. Raising \<open>StopIteration\<close> in the body ends the
  iteration, as it does in the version of the language the module is written for.
\<close>

datatype ('t, 's) generator = Created | Suspended 's "'t list" | Closed

datatype ('t, 's) resumed = Yielded "'t \<times> 's" | StopIteration | Raised exn

fun loop_step :: "'s \<Rightarrow> 't list \<Rightarrow> ('t, 's) generator \<times> ('t, 's) resumed" where
  "loop_step session [] = (Closed, StopIteration)"
| "loop_step session (torrent # rest) = (Suspended session rest, Yielded (torrent, session))"

text \<open>
  One \<open>next\<close> on the generator. \<open>fetch_releases\<close> is the method a provider overrides, called
  on the provider as it is at that moment; \<open>Session\<close> is the session the factory gives;
  \<open>now\<close> is what \<open>time()\<close> returns, read on the first \<open>next\<close> only.
\<close>

definition find_matches_next ::
  "(TorrentProvider \<Rightarrow> 's \<Rightarrow> exn + 't list) \<Rightarrow> 's \<Rightarrow> real \<Rightarrow>
     TorrentProvider \<times> ('t, 's) generator \<Rightarrow>
     (TorrentProvider \<times> ('t, 's) generator) \<times> ('t, 's) resumed" where
  "find_matches_next fetch_releases Session now st =
     (case st of
        (self, Created) \<Rightarrow>
          (let t0 = now; delta = t0 - last_update self
           in if \<not> delta > real_of_int (interval self) \<or> \<not> enabled self
              then ((self, Closed), StopIteration)
              else
                (let self' = self\<lparr>last_update := t0\<rparr>; session = Session
                 in case fetch_releases self' session of
                      Inl e \<Rightarrow> ((self', Closed), Raised e)
                    | Inr torrents \<Rightarrow>
                        (case loop_step session torrents of (g, r) \<Rightarrow> ((self', g), r))))
      | (self, Suspended session rest) \<Rightarrow>
          (case loop_step session rest of (g, r) \<Rightarrow> ((self, g), r))
      | (self, Closed) \<Rightarrow> ((self, Closed), StopIteration))"

text \<open>The method of the base class.\<close>

definition fetch_releases_base :: "TorrentProvider \<Rightarrow> 's \<Rightarrow> exn + 't list" where
  "fetch_releases_base self session = Inl (NotImplementedError ''Must override this method'')"

text \<open>
  A caller that takes from the generator until it ends: the provider afterwards, the
  pairs it got in order, and the exception if one came out. The first argument bounds the
  number of \<open>next\<close> calls; \<open>None\<close> means the bound was reached before the generator ended.
\<close>

fun find_matches ::
  "nat \<Rightarrow> (TorrentProvider \<Rightarrow> 's \<Rightarrow> exn + 't list) \<Rightarrow> 's \<Rightarrow> real \<Rightarrow>
     TorrentProvider \<times> ('t, 's) generator \<Rightarrow>
     (TorrentProvider \<times> ('t \<times> 's) list \<times> exn option) option" where
  "find_matches 0 fetch_releases Session now st = None"
| "find_matches (Suc n) fetch_releases Session now st =
     (case find_matches_next fetch_releases Session now st of
        (st', Yielded y) \<Rightarrow>
          (case find_matches n fetch_releases Session now st' of
             None \<Rightarrow> None
           | Some (self', ys, err) \<Rightarrow> Some (self', y # ys, err))
      | (st', StopIteration) \<Rightarrow> Some (fst st', [], None)
      | (st', Raised e) \<Rightarrow> Some (fst st', [], Some e))"

text \<open>
  \<open>exists(session, release_key)\<close>. The key is a key object or a string; \<open>"{}".format\<close>
  gives its string form. The result is the list of the query or \<open>False\<close>; the second
  component is the log with what \<open>logger.exception\<close> added.
\<close>

datatype keyarg = KeyObj ReleaseKey | KeyStr string

fun format_key :: "keyarg \<Rightarrow> string" where
  "format_key (KeyObj k) = as_unicode k"
| "format_key (KeyStr s) = s"

datatype exists_result = Found "Download list" | ReturnedFalse

text \<open>The truth value of the result, as a caller's \<open>if\<close> takes it.\<close>

fun duplicate_found :: "exists_result \<Rightarrow> bool" where
  "duplicate_found (Found ds) = (ds \<noteq> [])"
| "duplicate_found ReturnedFalse = False"

definition exists :: "exn list \<Rightarrow> session \<Rightarrow> keyarg \<Rightarrow> exists_result \<times> exn list" where
  "exists logged s key_arg =
     (case all_rows
             (filter_by (\<lambda>d. download_release_key d = format_key key_arg) (query_Download s)) of
        Inr ds \<Rightarrow> (Found ds, logged)
      | Inl err \<Rightarrow> (ReturnedFalse, logged @ [err]))"

section \<open>Values for the examples\<close>

definition demo_provider :: TorrentProvider where
  "demo_provider = \<lparr>enabled = True, last_update = 1000, interval = 60\<rparr>"

definition demo_fetch :: "TorrentProvider \<Rightarrow> nat \<Rightarrow> exn + string list" where
  "demo_fetch self session = Inr [''Show.S01E02.HDTV-GRP'', ''Film.2014.BluRay-GRP'']"

definition empty_session :: session where
  "empty_session =
     \<lparr>downloads = [], sources = [], pending = [], autoflush = True, next_source_id = 1,
      fault = None\<rparr>"

definition empty_world :: world where
  "empty_world = \<lparr>cache_source = [], next_oid = 0\<rparr>"

definition demo_downloads :: "Download list" where
  "demo_downloads =
     [\<lparr>download_release_key = ''show-1_2'', download_id = 1, created_on = 100\<rparr>,
      \<lparr>download_release_key = ''show-1_3'', download_id = 2, created_on = 200\<rparr>]"

section \<open>Properties of the classifier\<close>




lemma map_of_in_keys: "k \<in> set (map fst xs) \<Longrightarrow> \<exists>v. map_of xs k = Some v"
  by (induction xs) auto

lemma shapes_distinct:
  "{''year'', ''day'', ''month''} \<noteq> {''season'', ''episode''}"
  "{''year''} \<noteq> {''season'', ''episode''}"
  "{''year''} \<noteq> {''year'', ''day'', ''month''}"
  by code_simp+

lemma keys_nonempty: "set (map fst info) = insert k K \<Longrightarrow> info \<noteq> []"
  by (cases info) simp_all

lemma grk_tv:
  assumes "parse_release P (normalize_name P raw) = Some N" and "N \<noteq> []"
    and "parse_release_info P (normalize_name P raw) = Inr (Some info)"
    and "set (map fst info) = {''season'', ''episode''}"
    and "map_of info ''season'' = Some s" and "map_of info ''episode'' = Some e"
  shows "generate_release_key P raw = Some (TV
             \<lparr>release_name = normalize_name P raw, name = lower N,
              release_key = lower N @ ''-'' @ fmt s @ ''_'' @ fmt e, media_type = MEDIA_TV\<rparr>
             s e None False)"
  using assms keys_nonempty [OF assms(4)]
  by (simp add: generate_release_key_def Let_def TVReleaseKey_def BaseReleaseKey_init_def)

lemma grk_daily:
  assumes "parse_release P (normalize_name P raw) = Some N" and "N \<noteq> []"
    and "parse_release_info P (normalize_name P raw) = Inr (Some info)"
    and "set (map fst info) = {''year'', ''day'', ''month''}"
    and "map_of info ''year'' = Some y" and "map_of info ''month'' = Some m"
    and "map_of info ''day'' = Some d"
  shows "generate_release_key P raw = Some (TVDaily
             \<lparr>release_name = normalize_name P raw, name = lower N,
              release_key = lower N @ ''-'' @ fmt y @ ''_'' @ fmt m @ ''_'' @ fmt d,
              media_type = MEDIA_TV\<rparr>
             d m y True)"
  using assms keys_nonempty [OF assms(4)]
  by (simp add: generate_release_key_def Let_def TVDailyReleaseKey_def BaseReleaseKey_init_def
        shapes_distinct)

lemma grk_movie:
  assumes "parse_release P (normalize_name P raw) = Some N" and "N \<noteq> []"
    and "parse_release_info P (normalize_name P raw) = Inr (Some info)"
    and "set (map fst info) = {''year''}"
    and "map_of info ''year'' = Some y"
  shows "generate_release_key P raw = Some (Movie
             \<lparr>release_name = normalize_name P raw, name = lower N,
              release_key = lower N @ ''-'' @ fmt y, media_type = MEDIA_MOVIE\<rparr> y)"
  using assms keys_nonempty [OF assms(4)]
  by (simp add: generate_release_key_def Let_def MovieReleaseKey_def BaseReleaseKey_init_def
        shapes_distinct)

lemma keys_dom: "set (map fst info) = dom (map_of info)"
  by (simp add: dom_map_of_conv_image_fst)

lemma empty_not_shape:
  "{} \<noteq> {''season'', ''episode''}" "{} \<noteq> {''year'', ''day'', ''month''}" "{} \<noteq> {''year''}"
  by simp_all

lemma as_unicode_simps [simp]:
  "as_unicode (Base b) = release_key b"
  "as_unicode (TVReleaseKey rn nm s e) = nm @ ''-'' @ fmt s @ ''_'' @ fmt e"
  "as_unicode (TVDailyReleaseKey rn nm d m y) = nm @ ''-'' @ fmt y @ ''_'' @ fmt m @ ''_'' @ fmt d"
  "as_unicode (MovieReleaseKey rn nm y) = nm @ ''-'' @ fmt y"
  by (simp_all add: as_unicode_def TVReleaseKey_def TVDailyReleaseKey_def MovieReleaseKey_def
        BaseReleaseKey_init_def)

lemma name_simps [simp]:
  "name (attrs (TVReleaseKey rn nm s e)) = nm"
  "name (attrs (TVDailyReleaseKey rn nm d m y)) = nm"
  "name (attrs (MovieReleaseKey rn nm y)) = nm"
  "name (BaseReleaseKey_init rn nm rk mt) = nm"
  by (simp_all add: TVReleaseKey_def TVDailyReleaseKey_def MovieReleaseKey_def
        BaseReleaseKey_init_def)

lemma grk_key:
  "map_option as_unicode (generate_release_key P raw) =
     key_from_parse (parse_release P (normalize_name P raw))
       (extracted (parse_release_info P (normalize_name P raw)))"
proof (cases "parse_release P (normalize_name P raw)")
  case None
  then show ?thesis by (simp add: generate_release_key_def key_from_parse_def)
next
  case (Some parsed)
  show ?thesis
  proof (cases "parsed = []")
    case True
    with Some show ?thesis by (simp add: generate_release_key_def key_from_parse_def)
  next
    case ne: False
    show ?thesis
    proof (cases "parse_release_info P (normalize_name P raw)")
      case (Inl e)
      with Some ne show ?thesis
        by (simp add: generate_release_key_def key_from_parse_def BaseReleaseKey_init_def Let_def
              empty_not_shape)
    next
      case (Inr r)
      show ?thesis
      proof (cases r)
        case None
        with Some ne Inr show ?thesis
          by (simp add: generate_release_key_def key_from_parse_def BaseReleaseKey_init_def Let_def
                empty_not_shape)
      next
        case (Some info)
        show ?thesis
        proof (cases "info = []")
          case True
          with \<open>parse_release P (normalize_name P raw) = Some parsed\<close> ne Inr Some show ?thesis
            by (simp add: generate_release_key_def key_from_parse_def BaseReleaseKey_init_def Let_def
                  empty_not_shape)
        next
          case False
          with \<open>parse_release P (normalize_name P raw) = Some parsed\<close> ne Inr Some show ?thesis
            by (simp add: generate_release_key_def key_from_parse_def Let_def dom_map_of_conv_image_fst
                  BaseReleaseKey_init_def split: option.split)
        qed
      qed
    qed
  qed
qed

lemma grk_base:
  assumes "parse_release P (normalize_name P raw) = Some N" and "N \<noteq> []"
    and "field_set (parse_release_info P (normalize_name P raw)) \<noteq> {''season'', ''episode''}"
    and "field_set (parse_release_info P (normalize_name P raw)) \<noteq> {''year'', ''day'', ''month''}"
    and "field_set (parse_release_info P (normalize_name P raw)) \<noteq> {''year''}"
  shows "generate_release_key P raw = Some (Base
           \<lparr>release_name = normalize_name P raw, name = lower N,
            release_key = lower N, media_type = MEDIA_UNKNOWN\<rparr>)"
proof (cases "parse_release_info P (normalize_name P raw)")
  case (Inl e)
  with assms(1,2) show ?thesis
    by (simp add: generate_release_key_def Let_def BaseReleaseKey_init_def)
next
  case (Inr r)
  show ?thesis
  proof (cases r)
    case None
    with Inr assms(1,2) show ?thesis
      by (simp add: generate_release_key_def Let_def BaseReleaseKey_init_def)
  next
    case (Some info)
    with Inr assms(3-5) have
      "set (map fst info) \<noteq> {''season'', ''episode''}"
      "set (map fst info) \<noteq> {''year'', ''day'', ''month''}"
      "set (map fst info) \<noteq> {''year''}"
      by (simp_all del: set_map)
    with Inr Some assms(1,2) show ?thesis
      by (simp add: generate_release_key_def Let_def BaseReleaseKey_init_def del: set_map)
  qed
qed

lemma const_parser_simps:
  "normalize_name (const_parser nm res) raw = raw"
  "parse_release (const_parser nm res) raw = nm"
  "parse_release_info (const_parser nm res) raw = res"
  by (simp_all add: const_parser_def)

lemma lower_demo: "lower ''Show'' = ''show''" "lower ''SHOW'' = ''show''" "lower ''show'' = ''show''"
  by code_simp+

lemma ascii_Show: "is_ascii ''Show''" "is_ascii ''SHOW''" "is_ascii ''show''"
  by code_simp+

lemma demo_fields:
  "map_of [(''season'', PInt 1), (''episode'', PInt 2)] =
   map_of [(''episode'', PInt 2), (''season'', PInt 1)]"
  by (rule ext) simp

lemma demo_parser_simps:
  "normalize_name demo_parser raw = raw"
  "parse_release demo_parser ''Show.S01E02.720p.HDTV.x264-AAA'' = Some ''Show''"
  "parse_release demo_parser ''show.s01e02.proper.web-dl-bbb'' = Some ''show''"
  "parse_release demo_parser ''SHOW.S01E03.HDTV-CCC'' = Some ''SHOW''"
  "parse_release demo_parser ''Show.S01E02.PROPER.WEB-DL-DDD'' = Some ''Show''"
  "parse_release_info demo_parser ''Show.S01E02.720p.HDTV.x264-AAA'' =
     Inr (Some [(''season'', PInt 1), (''episode'', PInt 2)])"
  "parse_release_info demo_parser ''show.s01e02.proper.web-dl-bbb'' =
     Inr (Some [(''episode'', PInt 2), (''season'', PInt 1)])"
  "parse_release_info demo_parser ''Show.S01E02.PROPER.WEB-DL-DDD'' =
     Inr (Some [(''episode'', PInt 2), (''season'', PInt 1)])"
  by (simp_all add: demo_parser_def table_parser_def)




lemma find_matches_suspended:
  "length rest < n \<Longrightarrow>
   find_matches n fetch_releases Session now (self, Suspended session rest) =
     Some (self, map (\<lambda>t. (t, session)) rest, None)"
proof (induction rest arbitrary: n)
  case Nil
  then obtain m where "n = Suc m" by (cases n) auto
  then show ?case by (simp add: find_matches_next_def)
next
  case (Cons t rest)
  then obtain m where n: "n = Suc m" and "length rest < m" by (cases n) auto
  with Cons.IH [of m] show ?case by (simp add: find_matches_next_def)
qed

lemma find_matches_accepted:
  assumes "enabled self" and "now - last_update self > real_of_int (interval self)"
    and "fetch_releases (self\<lparr>last_update := now\<rparr>) Session = Inr items"
    and "length items < n"
  shows "find_matches n fetch_releases Session now (self, Created) =
     Some (self\<lparr>last_update := now\<rparr>, map (\<lambda>t. (t, Session)) items, None)"
proof -
  from assms(4) obtain m where n: "n = Suc m" by (cases n) auto
  show ?thesis
  proof (cases items)
    case Nil
    with assms n show ?thesis by (simp add: find_matches_next_def Let_def)
  next
    case (Cons t rest)
    with assms(4) n have "length rest < m" by simp
    then have sus: "find_matches m fetch_releases Session now
        (self\<lparr>last_update := now\<rparr>, Suspended Session rest) =
        Some (self\<lparr>last_update := now\<rparr>, map (\<lambda>t. (t, Session)) rest, None)"
      by (rule find_matches_suspended)
    from Cons assms(1-3) n show ?thesis
      by (simp add: find_matches_next_def Let_def sus)
  qed
qed

lemma find_matches_gate_closed:
  assumes "\<not> now - last_update self > real_of_int (interval self) \<or> \<not> enabled self"
  shows "find_matches_next fetch_releases Session now (self, Created) =
           ((self, Closed), StopIteration)"
    and "find_matches (Suc n) fetch_releases Session now (self, Created) = Some (self, [], None)"
  using assms by (auto simp add: find_matches_next_def Let_def)

subsection \<open>C1: the three exact field-sets\<close>

text \<open>
  C1 (as amended). Let the parser give the non-empty ASCII name \<open>N\<close> for the normalized
  release name and a dictionary \<open>info\<close>. If the field names of \<open>info\<close> are exactly season and
  episode, \<open>generate_release_key\<close> returns the TV key whose \<open>release_key\<close> is \<open>N\<close> in lower
  case, a hyphen, the season, an underscore and the episode; if they are exactly year, day
  and month, it returns the daily TV key with the lowered name, a hyphen and year, month
  and day joined by underscores; if they are exactly year, it returns the movie key with
  the lowered name, a hyphen and the year. The name in the key is the parsed name in lower
  case, not the parsed name as the parser gave it.
\<close>

theorem classify_exact_shapes:
  assumes "parse_release P (normalize_name P raw) = Some N" and "N \<noteq> []"
    and "parse_release_info P (normalize_name P raw) = Inr (Some info)"
    and "is_ascii N"
  shows "(set (map fst info) = {''season'', ''episode''} \<and>
            map_of info ''season'' = Some s \<and> map_of info ''episode'' = Some e \<longrightarrow>
          generate_release_key P raw = Some (TV
             \<lparr>release_name = normalize_name P raw, name = lower N,
              release_key = lower N @ ''-'' @ fmt s @ ''_'' @ fmt e, media_type = MEDIA_TV\<rparr>
             s e None False)) \<and>
         (set (map fst info) = {''year'', ''day'', ''month''} \<and>
            map_of info ''year'' = Some y \<and> map_of info ''month'' = Some m \<and>
            map_of info ''day'' = Some d \<longrightarrow>
          generate_release_key P raw = Some (TVDaily
             \<lparr>release_name = normalize_name P raw, name = lower N,
              release_key = lower N @ ''-'' @ fmt y @ ''_'' @ fmt m @ ''_'' @ fmt d,
              media_type = MEDIA_TV\<rparr>
             d m y True)) \<and>
         (set (map fst info) = {''year''} \<and> map_of info ''year'' = Some y \<longrightarrow>
          generate_release_key P raw = Some (Movie
             \<lparr>release_name = normalize_name P raw, name = lower N,
              release_key = lower N @ ''-'' @ fmt y, media_type = MEDIA_MOVIE\<rparr> y))"
proof (intro conjI impI; elim conjE)
  show "generate_release_key P raw = Some (TV
             \<lparr>release_name = normalize_name P raw, name = lower N,
              release_key = lower N @ ''-'' @ fmt s @ ''_'' @ fmt e, media_type = MEDIA_TV\<rparr>
             s e None False)"
    if "set (map fst info) = {''season'', ''episode''}"
      and "map_of info ''season'' = Some s" and "map_of info ''episode'' = Some e"
    using that by (rule grk_tv [OF assms(1-3)])
  show "generate_release_key P raw = Some (TVDaily
             \<lparr>release_name = normalize_name P raw, name = lower N,
              release_key = lower N @ ''-'' @ fmt y @ ''_'' @ fmt m @ ''_'' @ fmt d,
              media_type = MEDIA_TV\<rparr>
             d m y True)"
    if "set (map fst info) = {''year'', ''day'', ''month''}"
      and "map_of info ''year'' = Some y" and "map_of info ''month'' = Some m"
      and "map_of info ''day'' = Some d"
    using that by (rule grk_daily [OF assms(1-3)])
  show "generate_release_key P raw = Some (Movie
             \<lparr>release_name = normalize_name P raw, name = lower N,
              release_key = lower N @ ''-'' @ fmt y, media_type = MEDIA_MOVIE\<rparr> y)"
    if "set (map fst info) = {''year''}" and "map_of info ''year'' = Some y"
    using that by (rule grk_movie [OF assms(1-3)])
qed

lemma lower_Show: "lower ''Show'' = ''show''" by code_simp
lemma fmt_vals: "fmt (PInt 1) = ''1''" "fmt (PInt 2) = ''2''" "fmt (PInt 2014) = ''2014''"
  "fmt (PInt 3) = ''3''" "fmt (PInt 17) = ''17''"
  by code_simp+

theorem classify_exact_shapes_witness:
  "generate_release_key
     (const_parser (Some ''Show'') (Inr (Some [(''season'', PInt 1), (''episode'', PInt 2)])))
     ''Show.S01E02.HDTV.x264-GRP'' =
   Some (TV \<lparr>release_name = ''Show.S01E02.HDTV.x264-GRP'', name = ''show'',
              release_key = ''show-1_2'', media_type = MEDIA_TV\<rparr> (PInt 1) (PInt 2) None False) \<and>
   generate_release_key
     (const_parser (Some ''Show'')
        (Inr (Some [(''year'', PInt 2014), (''month'', PInt 3), (''day'', PInt 17)])))
     ''Show.2014.03.17.HDTV.x264-GRP'' =
   Some (TVDaily \<lparr>release_name = ''Show.2014.03.17.HDTV.x264-GRP'', name = ''show'',
              release_key = ''show-2014_3_17'', media_type = MEDIA_TV\<rparr>
           (PInt 17) (PInt 3) (PInt 2014) True) \<and>
   generate_release_key
     (const_parser (Some ''Show'') (Inr (Some [(''year'', PInt 2014)])))
     ''Show.2014.1080p.BluRay-GRP'' =
   Some (Movie \<lparr>release_name = ''Show.2014.1080p.BluRay-GRP'', name = ''show'',
              release_key = ''show-2014'', media_type = MEDIA_MOVIE\<rparr> (PInt 2014))"
proof -
  have p: "\<And>res raw. parse_release (const_parser (Some ''Show'') res)
             (normalize_name (const_parser (Some ''Show'') res) raw) = Some ''Show''"
    by (simp add: const_parser_def)
  have q: "\<And>nm res raw. parse_release_info (const_parser nm res)
             (normalize_name (const_parser nm res) raw) = res"
    by (simp add: const_parser_def)
  have n: "\<And>nm res raw. normalize_name (const_parser nm res) raw = raw"
    by (simp add: const_parser_def)
  have ne: "''Show'' \<noteq> []" by simp
  have asc: "is_ascii ''Show''" by code_simp
  have k1: "set (map fst [(''season'', PInt 1), (''episode'', PInt 2)]) = {''season'', ''episode''} \<and>
      map_of [(''season'', PInt 1), (''episode'', PInt 2)] ''season'' = Some (PInt 1) \<and>
      map_of [(''season'', PInt 1), (''episode'', PInt 2)] ''episode'' = Some (PInt 2)"
    by code_simp
  have k2: "set (map fst [(''year'', PInt 2014), (''month'', PInt 3), (''day'', PInt 17)]) =
      {''year'', ''day'', ''month''} \<and>
      map_of [(''year'', PInt 2014), (''month'', PInt 3), (''day'', PInt 17)] ''year'' =
        Some (PInt 2014) \<and>
      map_of [(''year'', PInt 2014), (''month'', PInt 3), (''day'', PInt 17)] ''month'' =
        Some (PInt 3) \<and>
      map_of [(''year'', PInt 2014), (''month'', PInt 3), (''day'', PInt 17)] ''day'' =
        Some (PInt 17)"
    by code_simp
  have k3: "set (map fst [(''year'', PInt 2014)]) = {''year''} \<and>
      map_of [(''year'', PInt 2014)] ''year'' = Some (PInt 2014)"
    by code_simp
  have v: "lower ''Show'' @ ''-'' @ fmt (PInt 1) @ ''_'' @ fmt (PInt 2) = ''show-1_2''"
      "lower ''Show'' @ ''-'' @ fmt (PInt 2014) @ ''_'' @ fmt (PInt 3) @ ''_'' @ fmt (PInt 17) =
         ''show-2014_3_17''"
      "lower ''Show'' @ ''-'' @ fmt (PInt 2014) = ''show-2014''"
      "lower ''Show'' = ''show''"
    by code_simp+
  have A: "generate_release_key
     (const_parser (Some ''Show'') (Inr (Some [(''season'', PInt 1), (''episode'', PInt 2)])))
     ''Show.S01E02.HDTV.x264-GRP'' =
   Some (TV \<lparr>release_name = ''Show.S01E02.HDTV.x264-GRP'', name = ''show'',
              release_key = ''show-1_2'', media_type = MEDIA_TV\<rparr> (PInt 1) (PInt 2) None False)"
    using classify_exact_shapes [OF p ne q asc, THEN conjunct1, THEN mp, OF k1]
    by (simp add: n lower_Show fmt_vals del: fmt.simps)
  have B: "generate_release_key
     (const_parser (Some ''Show'')
        (Inr (Some [(''year'', PInt 2014), (''month'', PInt 3), (''day'', PInt 17)])))
     ''Show.2014.03.17.HDTV.x264-GRP'' =
   Some (TVDaily \<lparr>release_name = ''Show.2014.03.17.HDTV.x264-GRP'', name = ''show'',
              release_key = ''show-2014_3_17'', media_type = MEDIA_TV\<rparr>
           (PInt 17) (PInt 3) (PInt 2014) True)"
    using classify_exact_shapes [OF p ne q asc, THEN conjunct2, THEN conjunct1, THEN mp, OF k2]
    by (simp add: n lower_Show fmt_vals del: fmt.simps)
  have C: "generate_release_key
     (const_parser (Some ''Show'') (Inr (Some [(''year'', PInt 2014)])))
     ''Show.2014.1080p.BluRay-GRP'' =
   Some (Movie \<lparr>release_name = ''Show.2014.1080p.BluRay-GRP'', name = ''show'',
              release_key = ''show-2014'', media_type = MEDIA_MOVIE\<rparr> (PInt 2014))"
    using classify_exact_shapes [OF p ne q asc, THEN conjunct2, THEN conjunct2, THEN mp, OF k3]
    by (simp add: n lower_Show fmt_vals del: fmt.simps)
  from A B C show ?thesis by (intro conjI)
qed

text \<open>
  With the parsed name \<open>Show\<close>, season 1 and episode 2 the key is \<open>show-1_2\<close>, which is
  not \<open>Show-1_2\<close>: the key built from the parsed name as the parser gave it.
\<close>

theorem classify_exact_shapes_counterexample:
  "parse_release
     (const_parser (Some ''Show'') (Inr (Some [(''season'', PInt 1), (''episode'', PInt 2)])))
     (normalize_name
        (const_parser (Some ''Show'') (Inr (Some [(''season'', PInt 1), (''episode'', PInt 2)])))
        ''Show.S01E02.HDTV.x264-GRP'') = Some ''Show'' \<and>
   field_set (parse_release_info
     (const_parser (Some ''Show'') (Inr (Some [(''season'', PInt 1), (''episode'', PInt 2)])))
     (normalize_name
        (const_parser (Some ''Show'') (Inr (Some [(''season'', PInt 1), (''episode'', PInt 2)])))
        ''Show.S01E02.HDTV.x264-GRP'')) = {''season'', ''episode''} \<and>
   map_option as_unicode (generate_release_key
     (const_parser (Some ''Show'') (Inr (Some [(''season'', PInt 1), (''episode'', PInt 2)])))
     ''Show.S01E02.HDTV.x264-GRP'') = Some ''show-1_2'' \<and>
   map_option as_unicode (generate_release_key
     (const_parser (Some ''Show'') (Inr (Some [(''season'', PInt 1), (''episode'', PInt 2)])))
     ''Show.S01E02.HDTV.x264-GRP'') \<noteq> Some (''Show'' @ ''-'' @ fmt (PInt 1) @ ''_'' @ fmt (PInt 2))"
  by code_simp

subsection \<open>C4: every other field-set\<close>

text \<open>
  C4 (as amended). Let the parser give the non-empty ASCII name \<open>N\<close> for the normalized
  release name. If the field-set of the parse is none of season and episode, year with day
  and month, and year alone (it may be empty, a part of one of them, or one of them with
  more fields, and the parser may have raised or given nothing), \<open>generate_release_key\<close>
  returns the base key whose name and \<open>release_key\<close> are both \<open>N\<close> in lower case; the
  fields are dropped. The key is the lowered name, not the name as the parser gave it.
\<close>

theorem classify_other_sets_base:
  assumes "parse_release P (normalize_name P raw) = Some N" and "N \<noteq> []"
    and "field_set (parse_release_info P (normalize_name P raw)) \<notin>
           {{''season'', ''episode''}, {''year'', ''day'', ''month''}, {''year''}}"
    and "is_ascii N"
  shows "generate_release_key P raw = Some (Base
           \<lparr>release_name = normalize_name P raw, name = lower N,
            release_key = lower N, media_type = MEDIA_UNKNOWN\<rparr>)"
proof -
  from assms(3) have
    "field_set (parse_release_info P (normalize_name P raw)) \<noteq> {''season'', ''episode''}"
    "field_set (parse_release_info P (normalize_name P raw)) \<noteq> {''year'', ''day'', ''month''}"
    "field_set (parse_release_info P (normalize_name P raw)) \<noteq> {''year''}"
    by (simp_all only: insert_iff de_Morgan_disj empty_iff simp_thms)
  then show ?thesis by (rule grk_base [OF assms(1,2)])
qed

theorem classify_other_sets_base_witness:
  "generate_release_key
     (const_parser (Some ''Show'')
        (Inr (Some [(''season'', PInt 1), (''episode'', PInt 2), (''year'', PInt 2014)])))
     ''Show.2014.S01E02.HDTV.x264-GRP'' =
   Some (Base \<lparr>release_name = ''Show.2014.S01E02.HDTV.x264-GRP'', name = ''show'',
                release_key = ''show'', media_type = MEDIA_UNKNOWN\<rparr>) \<and>
   generate_release_key (const_parser (Some ''Show'') (Inr (Some [(''season'', PInt 1)])))
     ''Show.S01.HDTV.x264-GRP'' =
   Some (Base \<lparr>release_name = ''Show.S01.HDTV.x264-GRP'', name = ''show'',
                release_key = ''show'', media_type = MEDIA_UNKNOWN\<rparr>) \<and>
   generate_release_key (const_parser (Some ''Show'') (Inr None)) ''Show.HDTV.x264-GRP'' =
   Some (Base \<lparr>release_name = ''Show.HDTV.x264-GRP'', name = ''show'',
                release_key = ''show'', media_type = MEDIA_UNKNOWN\<rparr>)"
proof -
  have ne: "''Show'' \<noteq> []" by simp
  have f1: "field_set (parse_release_info
      (const_parser (Some ''Show'')
        (Inr (Some [(''season'', PInt 1), (''episode'', PInt 2), (''year'', PInt 2014)])))
      (normalize_name
        (const_parser (Some ''Show'')
          (Inr (Some [(''season'', PInt 1), (''episode'', PInt 2), (''year'', PInt 2014)])))
        ''Show.2014.S01E02.HDTV.x264-GRP'')) \<notin>
      {{''season'', ''episode''}, {''year'', ''day'', ''month''}, {''year''}}"
    by code_simp
  have f2: "field_set (parse_release_info
      (const_parser (Some ''Show'') (Inr (Some [(''season'', PInt 1)])))
      (normalize_name (const_parser (Some ''Show'') (Inr (Some [(''season'', PInt 1)])))
        ''Show.S01.HDTV.x264-GRP'')) \<notin>
      {{''season'', ''episode''}, {''year'', ''day'', ''month''}, {''year''}}"
    by code_simp
  have f3: "field_set (parse_release_info (const_parser (Some ''Show'') (Inr None))
      (normalize_name (const_parser (Some ''Show'') (Inr None)) ''Show.HDTV.x264-GRP'')) \<notin>
      {{''season'', ''episode''}, {''year'', ''day'', ''month''}, {''year''}}"
    by code_simp
  have a: "generate_release_key
     (const_parser (Some ''Show'')
        (Inr (Some [(''season'', PInt 1), (''episode'', PInt 2), (''year'', PInt 2014)])))
     ''Show.2014.S01E02.HDTV.x264-GRP'' =
   Some (Base \<lparr>release_name = ''Show.2014.S01E02.HDTV.x264-GRP'', name = ''show'',
                release_key = ''show'', media_type = MEDIA_UNKNOWN\<rparr>)"
    using classify_other_sets_base [OF const_parser_simps(2) ne f1 ascii_Show(1)]
    by (simp add: const_parser_simps lower_demo)
  have b: "generate_release_key (const_parser (Some ''Show'') (Inr (Some [(''season'', PInt 1)])))
     ''Show.S01.HDTV.x264-GRP'' =
   Some (Base \<lparr>release_name = ''Show.S01.HDTV.x264-GRP'', name = ''show'',
                release_key = ''show'', media_type = MEDIA_UNKNOWN\<rparr>)"
    using classify_other_sets_base [OF const_parser_simps(2) ne f2 ascii_Show(1)]
    by (simp add: const_parser_simps lower_demo)
  have c: "generate_release_key (const_parser (Some ''Show'') (Inr None)) ''Show.HDTV.x264-GRP'' =
   Some (Base \<lparr>release_name = ''Show.HDTV.x264-GRP'', name = ''show'',
                release_key = ''show'', media_type = MEDIA_UNKNOWN\<rparr>)"
    using classify_other_sets_base [OF const_parser_simps(2) ne f3 ascii_Show(1)]
    by (simp add: const_parser_simps lower_demo)
  from a b c show ?thesis by (intro conjI)
qed

text \<open>
  With the parsed name \<open>Show\<close> and the fields season, episode and year the key is
  \<open>show\<close>, which is not the parsed name \<open>Show\<close>.
\<close>

theorem classify_other_sets_base_counterexample:
  "parse_release
      (const_parser (Some ''Show'')
        (Inr (Some [(''season'', PInt 1), (''episode'', PInt 2), (''year'', PInt 2014)])))
      (normalize_name
        (const_parser (Some ''Show'')
          (Inr (Some [(''season'', PInt 1), (''episode'', PInt 2), (''year'', PInt 2014)])))
        ''Show.2014.S01E02.HDTV.x264-GRP'') = Some ''Show'' \<and>
   field_set (parse_release_info
      (const_parser (Some ''Show'')
        (Inr (Some [(''season'', PInt 1), (''episode'', PInt 2), (''year'', PInt 2014)])))
      (normalize_name
        (const_parser (Some ''Show'')
          (Inr (Some [(''season'', PInt 1), (''episode'', PInt 2), (''year'', PInt 2014)])))
        ''Show.2014.S01E02.HDTV.x264-GRP'')) = {''season'', ''episode'', ''year''} \<and>
   map_option as_unicode (generate_release_key
      (const_parser (Some ''Show'')
        (Inr (Some [(''season'', PInt 1), (''episode'', PInt 2), (''year'', PInt 2014)])))
      ''Show.2014.S01E02.HDTV.x264-GRP'') = Some ''show'' \<and>
   map_option as_unicode (generate_release_key
      (const_parser (Some ''Show'')
        (Inr (Some [(''season'', PInt 1), (''episode'', PInt 2), (''year'', PInt 2014)])))
      ''Show.2014.S01E02.HDTV.x264-GRP'') \<noteq> Some ''Show''"
  by code_simp

subsection \<open>C5: the key depends on the answers of the parser only\<close>

text \<open>
  C5. The key is a function of the two answers of the parser. Whenever two raw names, under
  the same or under two parsers, normalize and parse to the same name and to the same
  extracted fields (the field names with their values; nothing when the parser raised or
  gave nothing), \<open>generate_release_key\<close> gives both the same key, or no key for both,
  whatever else the raw names carry. For one raw name and one parser this says that two
  invocations give equal keys: \<open>generate_release_key\<close> reads nothing but its argument and
  the answers of the parser.
\<close>

theorem classify_depends_on_parse_only:
  assumes "parse_release P (normalize_name P a) = parse_release Q (normalize_name Q b)"
    and "extracted (parse_release_info P (normalize_name P a)) =
         extracted (parse_release_info Q (normalize_name Q b))"
  shows "map_option as_unicode (generate_release_key P a) =
         map_option as_unicode (generate_release_key Q b)"
  by (simp only: grk_key assms)

theorem classify_depends_on_parse_only_witness:
  "map_option as_unicode (generate_release_key demo_parser ''Show.S01E02.720p.HDTV.x264-AAA'') =
     Some ''show-1_2'' \<and>
   map_option as_unicode (generate_release_key demo_parser ''Show.S01E02.PROPER.WEB-DL-DDD'') =
     Some ''show-1_2''"
proof -
  have g: "map_option as_unicode
      (generate_release_key demo_parser ''Show.S01E02.720p.HDTV.x264-AAA'') = Some ''show-1_2''"
    by code_simp
  have e: "map_option as_unicode
      (generate_release_key demo_parser ''Show.S01E02.720p.HDTV.x264-AAA'') =
    map_option as_unicode
      (generate_release_key demo_parser ''Show.S01E02.PROPER.WEB-DL-DDD'')"
    by (rule classify_depends_on_parse_only)
      (simp_all only: demo_parser_simps extracted.simps demo_fields)
  from g e show ?thesis by simp
qed

subsection \<open>C6: a failing field extraction is absorbed\<close>

text \<open>
  C6. Let the parser give a non-empty name \<open>N\<close> and let \<open>parse_release_info\<close> raise, whatever
  the exception. Then \<open>generate_release_key\<close> returns a key, raising nothing: the base key
  for the normalized release name, of unknown media type, whose \<open>release_key\<close> is its name;
  for an ASCII name that name is \<open>N\<close> in lower case.
\<close>

theorem classify_absorbs_parser_failure:
  assumes "parse_release P (normalize_name P raw) = Some N" and "N \<noteq> []"
    and "parse_release_info P (normalize_name P raw) = Inl e"
  shows "\<exists>b. generate_release_key P raw = Some (Base b) \<and>
             release_name b = normalize_name P raw \<and>
             release_key b = name b \<and>
             media_type b = MEDIA_UNKNOWN \<and>
             (is_ascii N \<longrightarrow> name b = lower N)"
  using assms by (simp add: generate_release_key_def Let_def BaseReleaseKey_init_def)

theorem classify_absorbs_parser_failure_witness:
  "generate_release_key (const_parser (Some ''Show'') (Inl TypeError)) ''Show.HDTV.x264-GRP'' =
     Some (Base \<lparr>release_name = ''Show.HDTV.x264-GRP'', name = ''show'',
                  release_key = ''show'', media_type = MEDIA_UNKNOWN\<rparr>) \<and>
   generate_release_key (const_parser (Some ''Show'') (Inl (OtherError ''boom'')))
       ''Show.HDTV.x264-GRP'' =
     Some (Base \<lparr>release_name = ''Show.HDTV.x264-GRP'', name = ''show'',
                  release_key = ''show'', media_type = MEDIA_UNKNOWN\<rparr>)"
proof -
  have ne: "''Show'' \<noteq> []" by simp
  have r: "generate_release_key (const_parser (Some ''Show'') (Inl e)) ''Show.HDTV.x264-GRP'' =
     Some (Base \<lparr>release_name = ''Show.HDTV.x264-GRP'', name = ''show'',
                  release_key = ''show'', media_type = MEDIA_UNKNOWN\<rparr>)" for e
  proof -
    from classify_absorbs_parser_failure [OF const_parser_simps(2) ne const_parser_simps(3)]
    obtain b where g: "generate_release_key (const_parser (Some ''Show'') (Inl e))
          ''Show.HDTV.x264-GRP'' = Some (Base b)"
      and "release_name b =
          normalize_name (const_parser (Some ''Show'') (Inl e)) ''Show.HDTV.x264-GRP''"
      and "release_key b = name b" and "media_type b = MEDIA_UNKNOWN"
      and "is_ascii ''Show'' \<longrightarrow> name b = lower ''Show''"
      by blast
    then have "b = \<lparr>release_name = ''Show.HDTV.x264-GRP'', name = ''show'',
                  release_key = ''show'', media_type = MEDIA_UNKNOWN\<rparr>"
      by (cases b) (simp add: const_parser_simps lower_demo ascii_Show)
    with g show ?thesis by simp
  qed
  from r [of TypeError] r [of "OtherError ''boom''"] show ?thesis by (intro conjI)
qed

subsection \<open>C10: the name in the key is lowered\<close>




section \<open>Properties of the provider\<close>

subsection \<open>C2: the interval gate of the poll cycle\<close>

text \<open>
  C2. Take an enabled provider with interval 60 and \<open>last_update = t0\<close> whose
  \<open>fetch_releases\<close>, called on the provider with \<open>last_update\<close> already at \<open>t0 + 61\<close>, gives the
  releases \<open>items\<close>. A poll cycle at time \<open>t0 + 30\<close> ends at once, yields nothing and leaves
  the provider as it was. A poll cycle at \<open>t0 + 61\<close> passes the gate: its first step sets
  \<open>last_update\<close> to \<open>t0 + 61\<close>, makes the fetch on the provider so updated, and only then
  yields the first release (or ends, when there is none); a caller
  that takes until the end gets exactly the fetched releases in order, each paired with
  the session of the cycle, with no exception. On the provider so updated every cycle
  started at a time \<open>u\<close> with \<open>u - (t0 + 61) \<le> 60\<close>, with any fetch and session, also one
  started from inside the fetch, ends at once.
\<close>

theorem poll_cycle_gate:
  assumes "enabled self" and "interval self = 60" and "last_update self = t0"
    and "fetch_releases (self\<lparr>last_update := t0 + 61\<rparr>) Session = Inr items"
  shows "find_matches_next fetch_releases Session (t0 + 30) (self, Created) =
           ((self, Closed), StopIteration) \<and>
         find_matches (Suc n) fetch_releases Session (t0 + 30) (self, Created) =
           Some (self, [], None) \<and>
         find_matches_next fetch_releases Session (t0 + 61) (self, Created) =
           ((self\<lparr>last_update := t0 + 61\<rparr>, fst (loop_step Session items)),
            snd (loop_step Session items)) \<and>
         (length items < n \<longrightarrow>
          find_matches n fetch_releases Session (t0 + 61) (self, Created) =
            Some (self\<lparr>last_update := t0 + 61\<rparr>, map (\<lambda>t. (t, Session)) items, None)) \<and>
         (\<forall>u fetch' Session'. u - (t0 + 61) \<le> 60 \<longrightarrow>
            find_matches_next fetch' Session' u (self\<lparr>last_update := t0 + 61\<rparr>, Created) =
              ((self\<lparr>last_update := t0 + 61\<rparr>, Closed), StopIteration))"
proof (intro conjI impI allI)
  have early: "\<not> (t0 + 30) - last_update self > real_of_int (interval self) \<or> \<not> enabled self"
    using assms(2,3) by simp
  show "find_matches_next fetch_releases Session (t0 + 30) (self, Created) =
           ((self, Closed), StopIteration)"
    by (rule find_matches_gate_closed(1) [OF early])
  show "find_matches (Suc n) fetch_releases Session (t0 + 30) (self, Created) =
           Some (self, [], None)"
    by (rule find_matches_gate_closed(2) [OF early])
  have due: "(t0 + 61) - last_update self > real_of_int (interval self)"
    using assms(2,3) by simp
  show "find_matches_next fetch_releases Session (t0 + 61) (self, Created) =
           ((self\<lparr>last_update := t0 + 61\<rparr>, fst (loop_step Session items)),
            snd (loop_step Session items))"
    using assms(1,4) due
    by (simp add: find_matches_next_def Let_def split: prod.split)
  show "find_matches n fetch_releases Session (t0 + 61) (self, Created) =
            Some (self\<lparr>last_update := t0 + 61\<rparr>, map (\<lambda>t. (t, Session)) items, None)"
    if "length items < n"
    using assms(1) due assms(4) that by (rule find_matches_accepted)
  show "find_matches_next fetch' Session' u (self\<lparr>last_update := t0 + 61\<rparr>, Created) =
              ((self\<lparr>last_update := t0 + 61\<rparr>, Closed), StopIteration)"
    if "u - (t0 + 61) \<le> 60" for u and fetch' :: "TorrentProvider \<Rightarrow> 'c \<Rightarrow> exn + 'd list"
      and Session'
    using that assms(2) by (simp add: find_matches_next_def Let_def)
qed

theorem poll_cycle_gate_witness:
  "find_matches_next demo_fetch 7 1030 (demo_provider, Created) =
     ((demo_provider, Closed), StopIteration) \<and>
   find_matches 1 demo_fetch 7 1030 (demo_provider, Created) = Some (demo_provider, [], None) \<and>
   find_matches_next demo_fetch 7 1061 (demo_provider, Created) =
     ((demo_provider\<lparr>last_update := 1061\<rparr>, Suspended 7 [''Film.2014.BluRay-GRP'']),
      Yielded (''Show.S01E02.HDTV-GRP'', 7)) \<and>
   find_matches 3 demo_fetch 7 1061 (demo_provider, Created) =
     Some (demo_provider\<lparr>last_update := 1061\<rparr>,
           [(''Show.S01E02.HDTV-GRP'', 7), (''Film.2014.BluRay-GRP'', 7)], None) \<and>
   find_matches_next demo_fetch 8 1100 (demo_provider\<lparr>last_update := 1061\<rparr>, Created) =
     ((demo_provider\<lparr>last_update := 1061\<rparr>, Closed), StopIteration)"
proof -
  have e: "enabled demo_provider" and i: "interval demo_provider = 60"
    and l: "last_update demo_provider = 1000"
    by (simp_all add: demo_provider_def)
  have f: "demo_fetch (demo_provider\<lparr>last_update := 1000 + 61\<rparr>) 7 =
      Inr [''Show.S01E02.HDTV-GRP'', ''Film.2014.BluRay-GRP'']"
    by (simp add: demo_fetch_def)
  note g = poll_cycle_gate [where self = demo_provider and fetch_releases = demo_fetch
      and Session = "7::nat" and ?t0.0 = 1000
      and items = "[''Show.S01E02.HDTV-GRP'', ''Film.2014.BluRay-GRP'']", OF e i l f]
  have a: "find_matches_next demo_fetch 7 1030 (demo_provider, Created) =
     ((demo_provider, Closed), StopIteration)"
    using g [where n = 0, THEN conjunct1] by simp
  have b: "find_matches 1 demo_fetch 7 1030 (demo_provider, Created) =
     Some (demo_provider, [], None)"
    using g [where n = 0, THEN conjunct2, THEN conjunct1] by simp
  have c: "find_matches_next demo_fetch 7 1061 (demo_provider, Created) =
     ((demo_provider\<lparr>last_update := 1061\<rparr>, Suspended 7 [''Film.2014.BluRay-GRP'']),
      Yielded (''Show.S01E02.HDTV-GRP'', 7))"
    using g [where n = 0, THEN conjunct2, THEN conjunct2, THEN conjunct1] by simp
  have d: "find_matches 3 demo_fetch 7 1061 (demo_provider, Created) =
     Some (demo_provider\<lparr>last_update := 1061\<rparr>,
           [(''Show.S01E02.HDTV-GRP'', 7), (''Film.2014.BluRay-GRP'', 7)], None)"
    using g [where n = 3, THEN conjunct2, THEN conjunct2, THEN conjunct2, THEN conjunct1] by simp
  have h: "find_matches_next demo_fetch 8 1100 (demo_provider\<lparr>last_update := 1061\<rparr>, Created) =
     ((demo_provider\<lparr>last_update := 1061\<rparr>, Closed), StopIteration)"
    using g [where n = 0, THEN conjunct2, THEN conjunct2, THEN conjunct2, THEN conjunct2,
        THEN spec, THEN spec, THEN spec, of 1100 demo_fetch 8] by simp
  from a b c d h show ?thesis by (intro conjI)
qed

subsection \<open>C3: the duplicate check fails open\<close>

text \<open>
  C3. For every session, key and log: when the query of \<open>exists\<close> raises \<open>e\<close>, \<open>exists\<close>
  returns \<open>False\<close>, which a caller takes as no duplicate, and \<open>e\<close> is added to the log; when
  the query succeeds, \<open>exists\<close> returns the recorded downloads whose \<open>release_key\<close> equals
  the string form of the key, and the log is as before.
\<close>

theorem exists_fail_open:
  "(fault s = Some e \<longrightarrow>
      exists logged s key_arg = (ReturnedFalse, logged @ [e]) \<and>
      \<not> duplicate_found (fst (exists logged s key_arg))) \<and>
   (fault s = None \<longrightarrow>
      exists logged s key_arg =
        (Found (filter (\<lambda>d. download_release_key d = format_key key_arg) (downloads s)),
         logged))"
  by (simp add: exists_def query_Download_def)

theorem exists_fail_open_witness:
  "exists [] (empty_session\<lparr>downloads := demo_downloads, fault := Some DBAPIError\<rparr>)
      (KeyStr ''show-1_2'') = (ReturnedFalse, [DBAPIError]) \<and>
   \<not> duplicate_found (fst (exists []
      (empty_session\<lparr>downloads := demo_downloads, fault := Some DBAPIError\<rparr>)
      (KeyStr ''show-1_2''))) \<and>
   exists [] (empty_session\<lparr>downloads := demo_downloads\<rparr>) (KeyStr ''show-1_2'') =
     (Found [\<lparr>download_release_key = ''show-1_2'', download_id = 1, created_on = 100\<rparr>], [])"
proof -
  have f1: "fault (empty_session\<lparr>downloads := demo_downloads, fault := Some DBAPIError\<rparr>) =
      Some DBAPIError"
    by simp
  have f2: "fault (empty_session\<lparr>downloads := demo_downloads\<rparr>) = None"
    by (simp add: empty_session_def)
  have d: "filter (\<lambda>d. download_release_key d = format_key (KeyStr ''show-1_2''))
       (downloads (empty_session\<lparr>downloads := demo_downloads\<rparr>)) =
     [\<lparr>download_release_key = ''show-1_2'', download_id = 1, created_on = 100\<rparr>]"
    by (simp add: demo_downloads_def)
  from exists_fail_open [of "empty_session\<lparr>downloads := demo_downloads, fault := Some DBAPIError\<rparr>"
      DBAPIError "[]" "KeyStr ''show-1_2''", THEN conjunct1, THEN mp, OF f1]
    exists_fail_open [of "empty_session\<lparr>downloads := demo_downloads\<rparr>"
      DBAPIError "[]" "KeyStr ''show-1_2''", THEN conjunct2, THEN mp, OF f2]
  show ?thesis unfolding d by simp
qed

section \<open>Properties of the lookups\<close>

subsection \<open>C9: the release-key branch of \<open>fetch_download\<close>\<close>

text \<open>
  C9. For every session, id and limit: \<open>fetch_download\<close> with a non-empty \<open>release_key\<close>
  raises \<open>AttributeError\<close>, the query object having no attribute \<open>query\<close>; it returns
  nothing and applies no filter.
\<close>

theorem fetch_download_release_key_raises:
  assumes "key_arg = Some k" and "k \<noteq> []"
  shows "fetch_download s key_arg id_arg limit_arg = Inl AttributeError"
proof -
  have "\<not> hasattr_Query ''query''"
    unfolding hasattr_Query_def Query_attributes_def by code_simp
  with assms show ?thesis by (simp add: fetch_download_def)
qed

theorem fetch_download_release_key_raises_witness:
  "fetch_download (empty_session\<lparr>downloads := demo_downloads\<rparr>) (Some ''show-1_2'') None None =
     Inl AttributeError"
proof -
  have "''show-1_2'' \<noteq> []" by simp
  with fetch_download_release_key_raises [OF refl] show ?thesis .
qed

subsection \<open>C7: two calls of \<open>get_source\<close> with one name\<close>

text \<open>
  A source that the query finds is entered in the memo, and the second call returns that
  object from the memo without a query.
\<close>

lemma get_source_found_is_memoized:
  "get_source empty_world
       (empty_session\<lparr>sources := [\<lparr>oid = 0, source_name = ''rss'', source_id = Some 1\<rparr>]\<rparr>)
       (Some ''rss'') None =
     (Inr (One \<lparr>oid = 0, source_name = ''rss'', source_id = Some 1\<rparr>),
      \<lparr>cache_source = [(''rss'', Obj \<lparr>oid = 0, source_name = ''rss'', source_id = Some 1\<rparr>)],
        next_oid = 0\<rparr>,
      empty_session\<lparr>sources := [\<lparr>oid = 0, source_name = ''rss'', source_id = Some 1\<rparr>]\<rparr>) \<and>
   get_source
       \<lparr>cache_source = [(''rss'', Obj \<lparr>oid = 0, source_name = ''rss'', source_id = Some 1\<rparr>)],
        next_oid = 0\<rparr>
       empty_session (Some ''rss'') None =
     (Inr (One \<lparr>oid = 0, source_name = ''rss'', source_id = Some 1\<rparr>),
      \<lparr>cache_source = [(''rss'', Obj \<lparr>oid = 0, source_name = ''rss'', source_id = Some 1\<rparr>)],
        next_oid = 0\<rparr>,
      empty_session)"
  by (simp add: get_source_def get_source_finish_def cache_getitem_def cache_setitem_def
        empty_world_def empty_session_def query_Source_def after_query_def flush_def
        session_add_def Let_def)

text \<open>
  After a first call that created a source the memo holds \<open>None\<close> for the name. A second
  call on the same session with \<open>autoflush\<close> writes the staged source, finds it by the
  query and only then enters it in the memo.
\<close>

lemma get_source_same_session_autoflush:
  "get_source \<lparr>cache_source = [(''rss'', IsNone)], next_oid = 1\<rparr>
       (empty_session\<lparr>pending := [\<lparr>oid = 0, source_name = ''rss'', source_id = None\<rparr>]\<rparr>)
       (Some ''rss'') None =
     (Inr (One \<lparr>oid = 0, source_name = ''rss'', source_id = Some 1\<rparr>),
      \<lparr>cache_source = [(''rss'', Obj \<lparr>oid = 0, source_name = ''rss'', source_id = Some 1\<rparr>)],
        next_oid = 1\<rparr>,
      empty_session\<lparr>sources := [\<lparr>oid = 0, source_name = ''rss'', source_id = Some 1\<rparr>],
                     next_source_id := 2\<rparr>)"
  by (simp add: get_source_def get_source_finish_def cache_getitem_def cache_setitem_def
        empty_world_def empty_session_def query_Source_def after_query_def flush_def
        session_add_def Let_def)

text \<open>
  C7. The code at a name whose query finds nothing. The first call enters \<open>None\<close> in the
  memo, creates the source with identity 0 and stages it; the memo is not given the new
  source. A second call with the same name, with nothing written in between, on another
  session or on the same session without \<open>autoflush\<close>, finds \<open>None\<close> in the memo, queries
  again, finds nothing and creates a second source with identity 1: the two calls do not
  return the same object.
\<close>

theorem get_source_created_twice:
  "get_source empty_world empty_session (Some ''rss'') None =
     (Inr (One \<lparr>oid = 0, source_name = ''rss'', source_id = None\<rparr>),
      \<lparr>cache_source = [(''rss'', IsNone)], next_oid = 1\<rparr>,
      empty_session\<lparr>pending := [\<lparr>oid = 0, source_name = ''rss'', source_id = None\<rparr>]\<rparr>) \<and>
   get_source \<lparr>cache_source = [(''rss'', IsNone)], next_oid = 1\<rparr> empty_session
       (Some ''rss'') None =
     (Inr (One \<lparr>oid = 1, source_name = ''rss'', source_id = None\<rparr>),
      \<lparr>cache_source = [(''rss'', IsNone)], next_oid = 2\<rparr>,
      empty_session\<lparr>pending := [\<lparr>oid = 1, source_name = ''rss'', source_id = None\<rparr>]\<rparr>) \<and>
   get_source empty_world (empty_session\<lparr>autoflush := False\<rparr>) (Some ''rss'') None =
     (Inr (One \<lparr>oid = 0, source_name = ''rss'', source_id = None\<rparr>),
      \<lparr>cache_source = [(''rss'', IsNone)], next_oid = 1\<rparr>,
      empty_session\<lparr>pending := [\<lparr>oid = 0, source_name = ''rss'', source_id = None\<rparr>],
                     autoflush := False\<rparr>) \<and>
   get_source \<lparr>cache_source = [(''rss'', IsNone)], next_oid = 1\<rparr>
       (empty_session\<lparr>pending := [\<lparr>oid = 0, source_name = ''rss'', source_id = None\<rparr>],
                      autoflush := False\<rparr>)
       (Some ''rss'') None =
     (Inr (One \<lparr>oid = 1, source_name = ''rss'', source_id = None\<rparr>),
      \<lparr>cache_source = [(''rss'', IsNone)], next_oid = 2\<rparr>,
      empty_session\<lparr>pending := [\<lparr>oid = 0, source_name = ''rss'', source_id = None\<rparr>,
                                 \<lparr>oid = 1, source_name = ''rss'', source_id = None\<rparr>],
                     autoflush := False\<rparr>) \<and>
   oid \<lparr>oid = 0, source_name = ''rss'', source_id = None\<rparr> \<noteq>
   oid \<lparr>oid = 1, source_name = ''rss'', source_id = None\<rparr>"
  by (simp add: get_source_def get_source_finish_def cache_getitem_def cache_setitem_def
        empty_world_def empty_session_def query_Source_def after_query_def flush_def
        session_add_def Let_def)

subsection \<open>C8: \<open>get_source\<close> by an id that is not there\<close>

text \<open>
  C8. The code at an id that matches no source in the memo and no source the query sees,
  with no name given and a working persistence engine: the call raises \<open>AttributeError\<close>,
  either in the loop over the memo at a value \<open>False\<close> or \<open>None\<close>, or at
  \<open>source.source_name\<close> with the \<open>None\<close> the query gave. It does not reach
  \<open>raise ValueError("Invalid source name")\<close>.
\<close>

theorem get_source_by_id_not_found:
  assumes "nonempty name_arg = None" and "nonzero id_arg = Some i"
    and "\<forall>x. Obj x \<in> set (map snd (cache_source w)) \<longrightarrow> source_id x \<noteq> Some i"
    and "\<forall>x \<in> set (sources (after_query s)). source_id x \<noteq> Some i"
    and "fault s = None"
  shows "fst (get_source w s name_arg id_arg) = Inl AttributeError"
proof -
  have scan: "scan_cache i vs = Inl AttributeError \<or> scan_cache i vs = Inr None"
    if "\<forall>x. Obj x \<in> set vs \<longrightarrow> source_id x \<noteq> Some i" for vs
    using that by (induction i vs rule: scan_cache.induct) auto
  have none: "filter (\<lambda>x. source_id x = Some i) (sources (after_query s)) = []"
    using assms(4) by (simp add: filter_empty_conv)
  have q: "first (filter_by (\<lambda>x. source_id x = Some i) (query_Source s)) = Inr None"
    using assms(5) none by (simp add: query_Source_def after_query_def)
  from scan [OF assms(3)] show ?thesis
  proof
    assume "scan_cache i (map snd (cache_source w)) = Inl AttributeError"
    with assms(1,2) show ?thesis by (simp add: get_source_def)
  next
    assume "scan_cache i (map snd (cache_source w)) = Inr None"
    with assms(1,2) q show ?thesis by (simp add: get_source_def)
  qed
qed

theorem get_source_by_id_not_found_witness:
  "fst (get_source empty_world empty_session None (Some 5)) = Inl AttributeError \<and>
   fst (get_source \<lparr>cache_source = [(''rss'', IsNone)], next_oid = 1\<rparr>
          (empty_session\<lparr>sources := [\<lparr>oid = 0, source_name = ''feed'', source_id = Some 1\<rparr>]\<rparr>)
          (Some '''') (Some 5)) = Inl AttributeError"
proof -
  have a: "fst (get_source empty_world empty_session None (Some 5)) = Inl AttributeError"
    by (rule get_source_by_id_not_found [where i = 5])
      (simp_all add: empty_world_def empty_session_def after_query_def flush_def)
  have b: "fst (get_source \<lparr>cache_source = [(''rss'', IsNone)], next_oid = 1\<rparr>
          (empty_session\<lparr>sources := [\<lparr>oid = 0, source_name = ''feed'', source_id = Some 1\<rparr>]\<rparr>)
          (Some '''') (Some 5)) = Inl AttributeError"
    by (rule get_source_by_id_not_found [where i = 5])
      (simp_all add: empty_session_def after_query_def flush_def)
  from a b show ?thesis by (intro conjI)
qed

end
